theory Spec2Isabelle
  imports Main "HOL-Library.Word"
begin

section \<open>The GeoQuestFHE contract\<close>

text \<open>
  A shallow embedding of \<^verbatim>\<open>contracts/geo_quest_fhe.sol\<close>. Contract storage is a record that
  every external function takes and returns; a \<^verbatim>\<open>require\<close> that fails, a reverting library
  call, a failing \<^verbatim>\<open>abi.decode\<close> and an arithmetic panic are the \<open>Inl\<close> results of a
  function. The FHE library is not part of the repository: its operations are the fields of
  an engine record that every function takes as its first argument.
\<close>

subsection \<open>Solidity types\<close>

type_synonym uint256 = "256 word"
type_synonym uint32 = "32 word"
type_synonym address = "160 word"
type_synonym bytes = "8 word list"
type_synonym bytes32 = "256 word"

text \<open>\<^verbatim>\<open>euint32\<close> and \<^verbatim>\<open>externalEuint32\<close> are user-defined value types over \<^verbatim>\<open>bytes32\<close>:
  handles of ciphertexts, never the values.\<close>

type_synonym euint32 = bytes32
type_synonym externalEuint32 = bytes32

record LocationData =
  locationId :: string
  encryptedLatitude :: euint32
  encryptedLongitude :: euint32
  publicRadius :: uint256
  description :: string
  creator :: address
  timestamp :: uint256
  isVerified :: bool
  decryptedLatitude :: uint32
  decryptedLongitude :: uint32

datatype event =
    LocationCreated string address
  | LocationVerified string uint32 uint32

text \<open>The permissions the contract asks the FHE access-control list for, in call order.\<close>

datatype acl_request =
    AllowThis euint32
  | MakePubliclyDecryptable euint32

text \<open>
  Storage: the public mapping \<^verbatim>\<open>locationData\<close> (a Solidity mapping is total, every key
  not written holds the all-zero struct) and the public array \<^verbatim>\<open>locationIds\<close>; with them
  the log of emitted events and the requests made to the access-control list, both of which
  a reverted transaction rolls back as well.
\<close>

record storage =
  locationData :: "string \<Rightarrow> LocationData"
  locationIds :: "string list"
  events :: "event list"
  acl_requests :: "acl_request list"

text \<open>Why a call reverted: the six \<^verbatim>\<open>require\<close> messages of the contract, a revert inside
  \<^verbatim>\<open>FHE.fromExternal\<close> or \<^verbatim>\<open>FHE.checkSignatures\<close>, a failing \<^verbatim>\<open>abi.decode\<close>, and the
  arithmetic panic of checked \<^verbatim>\<open>uint256\<close> multiplication.\<close>

datatype revert =
    Location_already_exists
  | Invalid_encrypted_latitude
  | Invalid_encrypted_longitude
  | Location_does_not_exist
  | Location_already_verified
  | Location_not_verified
  | FHE_fromExternal_reverted
  | FHE_checkSignatures_reverted
  | Abi_decode_reverted
  | Panic_arithmetic_overflow

subsection \<open>The FHE library, as a parameter\<close>

text \<open>
  One field for each library function the contract calls. \<open>fromExternal\<close> is \<open>None\<close>
  where the library reverts (the input proof is rejected); \<open>checkSignatures\<close> is \<open>False\<close>
  where it reverts. \<open>FHE_leq\<close> yields the \<^verbatim>\<open>bool\<close> that the contract returns, and
  \<open>FHE_euint32\<close> is the conversion the contract applies to \<^verbatim>\<open>publicRadius * publicRadius\<close>.
  \<open>cleartext\<close> is not called by the contract: it names the 32-bit value a handle
  stands for, so that properties of the result can be stated.
\<close>

record fhe_engine =
  fromExternal :: "externalEuint32 \<Rightarrow> bytes \<Rightarrow> euint32 option"
  isInitialized :: "euint32 \<Rightarrow> bool"
  toBytes32 :: "euint32 \<Rightarrow> bytes32"
  checkSignatures :: "bytes32 list \<Rightarrow> bytes \<Rightarrow> bytes \<Rightarrow> bool"
  FHE_sub :: "euint32 \<Rightarrow> euint32 \<Rightarrow> euint32"
  FHE_mul :: "euint32 \<Rightarrow> euint32 \<Rightarrow> euint32"
  FHE_add :: "euint32 \<Rightarrow> euint32 \<Rightarrow> euint32"
  FHE_euint32 :: "uint256 \<Rightarrow> euint32"
  FHE_leq :: "euint32 \<Rightarrow> euint32 \<Rightarrow> bool"
  cleartext :: "euint32 \<Rightarrow> uint32"

subsection \<open>\<^verbatim>\<open>abi.decode(data, (uint32))\<close>\<close>

text \<open>The decoder of Solidity 0.8 reads the first 32 bytes as a big-endian number and
  reverts when there are fewer than 32 bytes or the number does not fit 32 bits.\<close>

definition be_nat :: "bytes \<Rightarrow> nat" where
  "be_nat bs = foldl (\<lambda>acc b. acc * 256 + unat b) 0 bs"

definition abi_decode_uint32 :: "bytes \<Rightarrow> uint32 option" where
  "abi_decode_uint32 bs =
     (if length bs < 32 then None
      else if be_nat (take 32 bs) < 2 ^ 32 then Some (of_nat (be_nat (take 32 bs)))
      else None)"

subsection \<open>The external functions\<close>

definition init_storage :: storage where
  "init_storage =
     \<lparr> locationData = (\<lambda>_. \<lparr> locationId = [], encryptedLatitude = 0, encryptedLongitude = 0,
                              publicRadius = 0, description = [], creator = 0, timestamp = 0,
                              isVerified = False, decryptedLatitude = 0,
                              decryptedLongitude = 0 \<rparr>),
       locationIds = [], events = [], acl_requests = [] \<rparr>"

text \<open>\<open>msg_sender\<close> and \<open>block_timestamp\<close> are \<^verbatim>\<open>msg.sender\<close> and \<^verbatim>\<open>block.timestamp\<close> of the
  transaction.\<close>

definition createLocation ::
  "fhe_engine \<Rightarrow> address \<Rightarrow> uint256 \<Rightarrow> storage \<Rightarrow> string \<Rightarrow> externalEuint32 \<Rightarrow>
   externalEuint32 \<Rightarrow> bytes \<Rightarrow> bytes \<Rightarrow> uint256 \<Rightarrow> string \<Rightarrow> revert + storage" where
  "createLocation E msg_sender block_timestamp s locId encLat encLng latitudeProof
     longitudeProof radius descr =
     (if length (locationId (locationData s locId)) \<noteq> 0 then Inl Location_already_exists
      else case fromExternal E encLat latitudeProof of
        None \<Rightarrow> Inl FHE_fromExternal_reverted
      | Some lat \<Rightarrow>
          if \<not> isInitialized E lat then Inl Invalid_encrypted_latitude
          else (case fromExternal E encLng longitudeProof of
            None \<Rightarrow> Inl FHE_fromExternal_reverted
          | Some lng \<Rightarrow>
              if \<not> isInitialized E lng then Inl Invalid_encrypted_longitude
              else Inr (s\<lparr> locationData := (locationData s)(locId :=
                              \<lparr> locationId = locId,
                                encryptedLatitude = lat,
                                encryptedLongitude = lng,
                                publicRadius = radius,
                                description = descr,
                                creator = msg_sender,
                                timestamp = block_timestamp,
                                isVerified = False,
                                decryptedLatitude = 0,
                                decryptedLongitude = 0 \<rparr>),
                            acl_requests := acl_requests s @
                              [AllowThis lat, AllowThis lng,
                               MakePubliclyDecryptable lat, MakePubliclyDecryptable lng],
                            locationIds := locationIds s @ [locId],
                            events := events s @ [LocationCreated locId msg_sender] \<rparr>)))"

definition verifyLocation ::
  "fhe_engine \<Rightarrow> storage \<Rightarrow> string \<Rightarrow> bytes \<Rightarrow> bytes \<Rightarrow> bytes \<Rightarrow> bytes \<Rightarrow> revert + storage" where
  "verifyLocation E s locId abiEncodedClearLatitude abiEncodedClearLongitude latitudeProof
     longitudeProof =
     (if \<not> length (locationId (locationData s locId)) > 0 then Inl Location_does_not_exist
      else if isVerified (locationData s locId) then Inl Location_already_verified
      else
        let cts = [toBytes32 E (encryptedLatitude (locationData s locId)),
                   toBytes32 E (encryptedLongitude (locationData s locId))]
        in if \<not> checkSignatures E cts abiEncodedClearLatitude latitudeProof
             then Inl FHE_checkSignatures_reverted
           else if \<not> checkSignatures E cts abiEncodedClearLongitude longitudeProof
             then Inl FHE_checkSignatures_reverted
           else case abi_decode_uint32 abiEncodedClearLatitude of
             None \<Rightarrow> Inl Abi_decode_reverted
           | Some decodedLatitude \<Rightarrow>
               (case abi_decode_uint32 abiEncodedClearLongitude of
                  None \<Rightarrow> Inl Abi_decode_reverted
                | Some decodedLongitude \<Rightarrow>
                    Inr (s\<lparr> locationData := (locationData s)(locId :=
                                (locationData s locId)
                                  \<lparr> decryptedLatitude := decodedLatitude,
                                    decryptedLongitude := decodedLongitude,
                                    isVerified := True \<rparr>),
                            events := events s @
                              [LocationVerified locId decodedLatitude decodedLongitude] \<rparr>)))"

definition checkLocationProximity ::
  "fhe_engine \<Rightarrow> storage \<Rightarrow> string \<Rightarrow> externalEuint32 \<Rightarrow> externalEuint32 \<Rightarrow> bytes \<Rightarrow> bytes \<Rightarrow>
   revert + bool" where
  "checkLocationProximity E s locId encryptedUserLatitude encryptedUserLongitude
     latitudeProof longitudeProof =
     (if \<not> length (locationId (locationData s locId)) > 0 then Inl Location_does_not_exist
      else if \<not> isVerified (locationData s locId) then Inl Location_not_verified
      else case fromExternal E encryptedUserLatitude latitudeProof of
        None \<Rightarrow> Inl FHE_fromExternal_reverted
      | Some userLatitude \<Rightarrow>
          (case fromExternal E encryptedUserLongitude longitudeProof of
             None \<Rightarrow> Inl FHE_fromExternal_reverted
           | Some userLongitude \<Rightarrow>
               let latitudeDiff =
                     FHE_sub E userLatitude (encryptedLatitude (locationData s locId));
                   longitudeDiff =
                     FHE_sub E userLongitude (encryptedLongitude (locationData s locId));
                   distanceSquared =
                     FHE_add E (FHE_mul E latitudeDiff latitudeDiff)
                               (FHE_mul E longitudeDiff longitudeDiff)
               in if 2 ^ 256 \<le> unat (publicRadius (locationData s locId)) *
                                unat (publicRadius (locationData s locId))
                    then Inl Panic_arithmetic_overflow
                  else Inr (FHE_leq E distanceSquared
                              (FHE_euint32 E (publicRadius (locationData s locId) *
                                              publicRadius (locationData s locId))))))"

definition getLocationData ::
  "storage \<Rightarrow> string \<Rightarrow> revert + (string \<times> address \<times> uint256 \<times> bool \<times> uint256)" where
  "getLocationData s locId =
     (if \<not> length (locationId (locationData s locId)) > 0 then Inl Location_does_not_exist
      else let data = locationData s locId
           in Inr (description data, creator data, timestamp data, isVerified data,
                   publicRadius data))"

definition getAllLocationIds :: "storage \<Rightarrow> string list" where
  "getAllLocationIds s = locationIds s"

definition isAvailable :: bool where
  "isAvailable = True"

subsection \<open>Transactions\<close>

text \<open>
  A call of an external function. The two functions that write are transactions; the
  others are \<^verbatim>\<open>view\<close> or \<^verbatim>\<open>pure\<close> and leave storage as it is. A transaction that reverts
  leaves storage as it was before the call.
\<close>

datatype call =
    CreateLocation address uint256 string externalEuint32 externalEuint32 bytes bytes
      uint256 string
  | VerifyLocation string bytes bytes bytes bytes
  | CheckLocationProximity string externalEuint32 externalEuint32 bytes bytes
  | GetLocationData string
  | GetAllLocationIds
  | IsAvailable

fun exec :: "fhe_engine \<Rightarrow> storage \<Rightarrow> call \<Rightarrow> storage" where
  "exec E s (CreateLocation sender now locId encLat encLng latProof lngProof radius descr) =
     (case createLocation E sender now s locId encLat encLng latProof lngProof radius descr of
        Inl _ \<Rightarrow> s | Inr s' \<Rightarrow> s')"
| "exec E s (VerifyLocation locId clearLat clearLng latProof lngProof) =
     (case verifyLocation E s locId clearLat clearLng latProof lngProof of
        Inl _ \<Rightarrow> s | Inr s' \<Rightarrow> s')"
| "exec E s (CheckLocationProximity locId encLat encLng latProof lngProof) = s"
| "exec E s (GetLocationData locId) = s"
| "exec E s GetAllLocationIds = s"
| "exec E s IsAvailable = s"

definition run :: "fhe_engine \<Rightarrow> storage \<Rightarrow> call list \<Rightarrow> storage" where
  "run E s cs = foldl (exec E) s cs"

text \<open>The ids whose \<^verbatim>\<open>createLocation\<close> call went through, in call order: what the spec calls
  the insertion order of the registry.\<close>

fun created_ids :: "fhe_engine \<Rightarrow> storage \<Rightarrow> call list \<Rightarrow> string list" where
  "created_ids E s [] = []"
| "created_ids E s (c # cs) =
     (case c of
        CreateLocation sender now locId encLat encLng latProof lngProof radius descr \<Rightarrow>
          (if isl (createLocation E sender now s locId encLat encLng latProof lngProof
                     radius descr)
           then [] else [locId])
      | _ \<Rightarrow> []) @ created_ids E (exec E s c) cs"

subsection \<open>Storage invariant\<close>

text \<open>Every record whose flag is set has a non-empty stored id. It holds of the storage
  after deployment and every call keeps it.\<close>

definition verified_exist :: "storage \<Rightarrow> bool" where
  "verified_exist s \<longleftrightarrow>
     (\<forall>k. isVerified (locationData s k) \<longrightarrow> locationId (locationData s k) \<noteq> [])"

subsection \<open>What is assumed of the FHE library\<close>

text \<open>
  The arithmetic of \<^verbatim>\<open>euint32\<close> is the arithmetic of 32-bit unsigned integers on the values
  the handles stand for (it wraps, as the library documents), \<^verbatim>\<open>FHE.leq\<close> compares those
  values, and a number below \<open>2 ^ 32\<close> converts to a handle of that number. Only the
  theorems about the value that \<^verbatim>\<open>checkLocationProximity\<close> returns assume it.
\<close>

definition homomorphic :: "fhe_engine \<Rightarrow> bool" where
  "homomorphic E \<longleftrightarrow>
     (\<forall>a b. cleartext E (FHE_sub E a b) = cleartext E a - cleartext E b) \<and>
     (\<forall>a b. cleartext E (FHE_mul E a b) = cleartext E a * cleartext E b) \<and>
     (\<forall>a b. cleartext E (FHE_add E a b) = cleartext E a + cleartext E b) \<and>
     (\<forall>n. n < 2 ^ 32 \<longrightarrow> cleartext E (FHE_euint32 E n) = ucast n) \<and>
     (\<forall>a b. FHE_leq E a b = (cleartext E a \<le> cleartext E b))"

subsection \<open>An engine that computes in the clear\<close>

text \<open>
  To run the contract on concrete inputs: the handle of a value \<open>v\<close> is \<open>2 ^ 32 + v\<close>
  (never the uninitialised handle 0), an input proof or a signature list is accepted when
  it is not empty, and \<open>checkSignatures\<close> also wants the clear bytes to decode to the
  value of one of the handles it is given.
\<close>

definition plain_encrypt :: "uint32 \<Rightarrow> euint32" where
  "plain_encrypt v = 2 ^ 32 + ucast v"

definition plain_engine :: fhe_engine where
  "plain_engine =
     \<lparr> fromExternal = (\<lambda>h inputProof. if inputProof = [] then None else Some h),
       isInitialized = (\<lambda>h. h \<noteq> 0),
       toBytes32 = (\<lambda>h. h),
       checkSignatures = (\<lambda>cts clear sigs.
          sigs \<noteq> [] \<and> list_ex (\<lambda>h. abi_decode_uint32 clear = Some (ucast h)) cts),
       FHE_sub = (\<lambda>a b. plain_encrypt (ucast a - ucast b)),
       FHE_mul = (\<lambda>a b. plain_encrypt (ucast a * ucast b)),
       FHE_add = (\<lambda>a b. plain_encrypt (ucast a + ucast b)),
       FHE_euint32 = (\<lambda>n. plain_encrypt (ucast n)),
       FHE_leq = (\<lambda>a b. (ucast a :: uint32) \<le> ucast b),
       cleartext = ucast \<rparr>"

text \<open>\<^verbatim>\<open>abi.encode\<close> of a \<^verbatim>\<open>uint32\<close>, as a caller of \<^verbatim>\<open>verifyLocation\<close> builds its
  arguments: 28 zero bytes, then the value, big-endian.\<close>

definition abi_encode_uint32 :: "uint32 \<Rightarrow> bytes" where
  "abi_encode_uint32 v =
     [0, 0, 0, 0, 0, 0, 0, 0, 0, 0, 0, 0, 0, 0, 0, 0, 0, 0, 0, 0, 0, 0, 0, 0, 0, 0, 0, 0,
      ucast (drop_bit 24 v), ucast (drop_bit 16 v), ucast (drop_bit 8 v), ucast v]"

text \<open>The calls of the spec's scenarios: \<^verbatim>\<open>loc1\<close> at \<open>(2500000, 12150000)\<close> with radius 100,
  and its reveal.\<close>

definition create_loc1 :: call where
  "create_loc1 =
     CreateLocation 0xA11CE 1700000000 ''loc1'' (plain_encrypt 2500000)
       (plain_encrypt 12150000) [1] [1] 100 ''anchor''"

definition reveal_loc1 :: call where
  "reveal_loc1 =
     VerifyLocation ''loc1'' (abi_encode_uint32 2500000) (abi_encode_uint32 12150000) [1] [1]"

definition storage_created :: storage where
  "storage_created = run plain_engine init_storage [create_loc1]"

definition storage_verified :: storage where
  "storage_verified = run plain_engine init_storage [create_loc1, reveal_loc1]"

text \<open>A second location, registered by someone else.\<close>

definition create_loc2 :: call where
  "create_loc2 =
     CreateLocation 0xB0B 1700000300 ''loc2'' (plain_encrypt 40) (plain_encrypt 50) [1] [1]
       3 ''other''"

text \<open>The same registration and reveal at a point next to it, and a registration under
  the empty id.\<close>

definition create_loc1_elsewhere :: call where
  "create_loc1_elsewhere =
     CreateLocation 0xA11CE 1700000000 ''loc1'' (plain_encrypt 2500001)
       (plain_encrypt 12150002) [1] [1] 100 ''anchor''"

definition reveal_loc1_elsewhere :: call where
  "reveal_loc1_elsewhere =
     VerifyLocation ''loc1'' (abi_encode_uint32 2500001) (abi_encode_uint32 12150002) [1] [1]"

definition create_unnamed :: call where
  "create_unnamed =
     CreateLocation 0xA11CE 1700000000 [] (plain_encrypt 1) (plain_encrypt 2) [1] [1] 100
       ''first''"

section \<open>Auxiliary facts\<close>

lemma run_Nil: "run E s [] = s"
  by (simp add: run_def)

lemma run_Cons: "run E s (c # cs) = run E (exec E s c) cs"
  by (simp add: run_def)

lemma run_append: "run E s (cs @ cs') = run E (run E s cs) cs'"
  by (simp add: run_def)

text \<open>Once a record has a non-empty stored id, no call changes that id.\<close>

lemma exec_exists:
  "locationId (locationData s k) \<noteq> [] \<Longrightarrow>
   locationId (locationData (exec E s c) k) = locationId (locationData s k)"
  by (cases c)
     (auto simp: createLocation_def verifyLocation_def Let_def
           split: option.splits if_splits)

lemma run_exists:
  "locationId (locationData s k) \<noteq> [] \<Longrightarrow>
   locationId (locationData (run E s cs) k) = locationId (locationData s k)"
  by (induction cs arbitrary: s) (simp_all add: run_Nil run_Cons exec_exists)

text \<open>A record that exists and is verified is never written again.\<close>

lemma exec_verified:
  "locationId (locationData s k) \<noteq> [] \<Longrightarrow> isVerified (locationData s k) \<Longrightarrow>
   locationData (exec E s c) k = locationData s k"
  by (cases c)
     (auto simp: createLocation_def verifyLocation_def Let_def
           split: option.splits if_splits)

lemma run_verified:
  "locationId (locationData s k) \<noteq> [] \<Longrightarrow> isVerified (locationData s k) \<Longrightarrow>
   locationData (run E s cs) k = locationData s k"
  by (induction cs arbitrary: s) (simp_all add: run_Nil run_Cons exec_verified)

lemma exec_verified_exist: "verified_exist s \<Longrightarrow> verified_exist (exec E s c)"
  unfolding verified_exist_def
  by (cases c)
     (auto simp: createLocation_def verifyLocation_def Let_def
           split: option.splits if_splits)

lemma run_verified_exist: "verified_exist s \<Longrightarrow> verified_exist (run E s cs)"
  by (induction cs arbitrary: s) (simp_all add: run_Nil run_Cons exec_verified_exist)

lemma init_verified_exist: "verified_exist init_storage"
  by (simp add: verified_exist_def init_storage_def)

text \<open>The record stored under the empty id keeps an empty stored id.\<close>

lemma exec_empty_id:
  "locationId (locationData s []) = [] \<Longrightarrow> locationId (locationData (exec E s c) []) = []"
  by (cases c)
     (auto simp: createLocation_def verifyLocation_def Let_def
           split: option.splits if_splits)

lemma run_empty_id:
  "locationId (locationData s []) = [] \<Longrightarrow> locationId (locationData (run E s cs) []) = []"
  by (induction cs arbitrary: s) (simp_all add: run_Nil run_Cons exec_empty_id)

lemma init_empty_id: "locationId (locationData init_storage k) = []"
  by (simp add: init_storage_def)

text \<open>The engine that computes in the clear meets the assumption.\<close>

lemma ucast_plain_encrypt: "(ucast (plain_encrypt v) :: uint32) = v"
  unfolding plain_encrypt_def
  by transfer (simp add: take_bit_eq_mod)

lemma homomorphic_plain: "homomorphic plain_engine"
  by (simp add: homomorphic_def plain_engine_def ucast_plain_encrypt)

text \<open>What a call that went through leaves in the record it wrote.\<close>

lemma createLocation_Inr_exists:
  "createLocation E sender now s locId encLat encLng latProof lngProof radius descr = Inr s1 \<Longrightarrow>
   locationId (locationData s1 locId) = locId"
  by (auto simp: createLocation_def split: option.splits if_splits)

lemma verifyLocation_Inr_verified:
  "verifyLocation E s locId clearLat clearLng latProof lngProof = Inr s1 \<Longrightarrow>
   locationId (locationData s1 locId) \<noteq> [] \<and> isVerified (locationData s1 locId)"
  by (auto simp: verifyLocation_def Let_def split: option.splits if_splits)

text \<open>The scenario, evaluated.\<close>

lemma decode_lat: "abi_decode_uint32 (abi_encode_uint32 2500000) = Some 2500000"
  by (simp add: abi_decode_uint32_def abi_encode_uint32_def be_nat_def)

lemma decode_lng: "abi_decode_uint32 (abi_encode_uint32 12150000) = Some 12150000"
  by (simp add: abi_decode_uint32_def abi_encode_uint32_def be_nat_def)

lemma created_loc1:
  "locationData storage_created ''loc1'' =
     \<lparr> locationId = ''loc1'', encryptedLatitude = plain_encrypt 2500000,
       encryptedLongitude = plain_encrypt 12150000, publicRadius = 100,
       description = ''anchor'', creator = 0xA11CE, timestamp = 1700000000,
       isVerified = False, decryptedLatitude = 0, decryptedLongitude = 0 \<rparr>"
  by (simp add: storage_created_def create_loc1_def run_def createLocation_def
        plain_engine_def init_storage_def plain_encrypt_def)

lemma verified_loc1:
  "locationData storage_verified ''loc1'' =
     \<lparr> locationId = ''loc1'', encryptedLatitude = plain_encrypt 2500000,
       encryptedLongitude = plain_encrypt 12150000, publicRadius = 100,
       description = ''anchor'', creator = 0xA11CE, timestamp = 1700000000,
       isVerified = True, decryptedLatitude = 2500000, decryptedLongitude = 12150000 \<rparr>"
  by (simp add: storage_verified_def create_loc1_def reveal_loc1_def run_def createLocation_def
        verifyLocation_def decode_lat decode_lng ucast_plain_encrypt
        plain_engine_def init_storage_def plain_encrypt_def)

lemma create_loc1_succeeds:
  "createLocation plain_engine 0xA11CE 1700000000 init_storage ''loc1''
     (plain_encrypt 2500000) (plain_encrypt 12150000) [1] [1] 100 ''anchor''
     = Inr storage_created"
  by (simp add: storage_created_def create_loc1_def run_def createLocation_def
        plain_engine_def init_storage_def plain_encrypt_def)

lemma reveal_loc1_succeeds:
  "verifyLocation plain_engine storage_created ''loc1'' (abi_encode_uint32 2500000)
     (abi_encode_uint32 12150000) [1] [1] = Inr storage_verified"
  by (simp add: storage_verified_def storage_created_def create_loc1_def reveal_loc1_def
        run_def createLocation_def verifyLocation_def decode_lat decode_lng
        plain_engine_def init_storage_def plain_encrypt_def)

text \<open>What a reveal that went through leaves of the record: the metadata as it was, the
  decoded values in the two decrypted fields.\<close>

lemma verifyLocation_Inr_record:
  "verifyLocation E s locId clearLat clearLng latProof lngProof = Inr s1 \<Longrightarrow>
   description (locationData s1 locId) = description (locationData s locId) \<and>
   creator (locationData s1 locId) = creator (locationData s locId) \<and>
   timestamp (locationData s1 locId) = timestamp (locationData s locId) \<and>
   publicRadius (locationData s1 locId) = publicRadius (locationData s locId) \<and>
   Some (decryptedLatitude (locationData s1 locId)) = abi_decode_uint32 clearLat \<and>
   Some (decryptedLongitude (locationData s1 locId)) = abi_decode_uint32 clearLng"
  by (auto simp: verifyLocation_def Let_def split: option.splits if_splits)

text \<open>A call appends to \<^verbatim>\<open>locationIds\<close> the id it registered, if it registered one.\<close>

lemma exec_locationIds:
  "locationIds (exec E s c) = locationIds s @ created_ids E s [c]"
  by (cases c)
     (auto simp: createLocation_def verifyLocation_def Let_def
           split: option.splits if_splits)

lemma created_ids_Cons:
  "created_ids E s (c # cs) = created_ids E s [c] @ created_ids E (exec E s c) cs"
  by simp

text \<open>The squared distance as 32-bit arithmetic computes it: the integer value modulo
  \<open>2 ^ 32\<close>, and the integer value itself where that is below \<open>2 ^ 32\<close>.\<close>

lemma uint_distance_wraps:
  fixes a b c d :: uint32
  shows "uint ((a - b) * (a - b) + (c - d) * (c - d))
         = ((uint a - uint b)\<^sup>2 + (uint c - uint d)\<^sup>2) mod 2 ^ 32"
proof -
  have "(a - b) * (a - b) + (c - d) * (c - d)
        = word_of_int ((uint a - uint b)\<^sup>2 + (uint c - uint d)\<^sup>2)"
    by (simp add: power2_eq_square)
  moreover have "uint (word_of_int x :: uint32) = x mod 2 ^ 32" for x
    by (simp add: uint_word_of_int_eq take_bit_eq_mod)
  ultimately show ?thesis
    by (simp only:)
qed

lemma uint_distance_exact:
  fixes a b c d :: uint32
  assumes "(uint a - uint b)\<^sup>2 + (uint c - uint d)\<^sup>2 < 2 ^ 32"
  shows "uint ((a - b) * (a - b) + (c - d) * (c - d))
         = (uint a - uint b)\<^sup>2 + (uint c - uint d)\<^sup>2"
proof -
  have "0 \<le> (uint a - uint b)\<^sup>2 + (uint c - uint d)\<^sup>2" by simp
  then show ?thesis
    using assms by (simp add: uint_distance_wraps)
qed

lemma small_radius_squared:
  fixes r :: uint256
  assumes "r < 2 ^ 16"
  shows "unat r * unat r < 2 ^ 32" and "r * r < 2 ^ 32"
    and "uint (ucast (r * r) :: uint32) = (uint r)\<^sup>2"
proof -
  have r: "unat r < 2 ^ 16"
    using assms by (simp add: word_less_nat_alt)
  have "unat r * unat r < 2 ^ 16 * 2 ^ 16"
    using r by (intro mult_strict_mono) simp_all
  then show sq: "unat r * unat r < 2 ^ 32" by simp
  then have u: "unat (r * r) = unat r * unat r"
    by (simp add: unat_word_ariths)
  show "r * r < 2 ^ 32"
    using sq u by (simp add: word_less_nat_alt)
  have "unat (ucast (r * r) :: uint32) = unat r * unat r"
    using sq u by (simp add: unsigned_ucast_eq take_bit_eq_mod)
  then have "int (unat (ucast (r * r) :: uint32)) = int (unat r) * int (unat r)"
    by simp
  then show "uint (ucast (r * r) :: uint32) = (uint r)\<^sup>2"
    by (simp add: power2_eq_square)
qed

text \<open>What \<^verbatim>\<open>checkLocationProximity\<close> returns on a verified record once the engine has
  accepted the claimant's inputs, in terms of the values the handles stand for.\<close>

lemma checkLocationProximity_value:
  assumes "homomorphic E"
    and "locationId (locationData s locId) \<noteq> []"
    and "isVerified (locationData s locId)"
    and "fromExternal E encUserLat latProof = Some userLatitude"
    and "fromExternal E encUserLng lngProof = Some userLongitude"
  shows "checkLocationProximity E s locId encUserLat encUserLng latProof lngProof =
     (if 2 ^ 256 \<le> unat (publicRadius (locationData s locId)) *
                     unat (publicRadius (locationData s locId))
      then Inl Panic_arithmetic_overflow
      else Inr ((cleartext E userLatitude - cleartext E (encryptedLatitude (locationData s locId))) *
                (cleartext E userLatitude - cleartext E (encryptedLatitude (locationData s locId))) +
                (cleartext E userLongitude - cleartext E (encryptedLongitude (locationData s locId))) *
                (cleartext E userLongitude - cleartext E (encryptedLongitude (locationData s locId)))
                \<le> cleartext E (FHE_euint32 E (publicRadius (locationData s locId) *
                                               publicRadius (locationData s locId)))))"
  using assms by (simp add: checkLocationProximity_def homomorphic_def Let_def)

text \<open>More of the scenario, evaluated.\<close>

lemma plain_fromExternal: "fromExternal plain_engine h [1] = Some h"
  by (simp add: plain_engine_def)

lemma plain_cleartext: "cleartext plain_engine (plain_encrypt v) = v"
  by (simp add: plain_engine_def ucast_plain_encrypt)

lemma verified_loc1_exists: "locationId (locationData storage_verified ''loc1'') \<noteq> []"
  by (simp add: verified_loc1)

lemma verified_loc1_flag: "isVerified (locationData storage_verified ''loc1'')"
  by (simp add: verified_loc1)

lemma created_loc1_cts:
  "[toBytes32 plain_engine (encryptedLatitude (locationData storage_created ''loc1'')),
    toBytes32 plain_engine (encryptedLongitude (locationData storage_created ''loc1''))]
   = [plain_encrypt 2500000, plain_encrypt 12150000]"
  by (simp add: created_loc1 plain_engine_def)

section \<open>Registration\<close>

text \<open>
  C1 (as amended). For every non-empty id: once \<^verbatim>\<open>createLocation\<close> has gone through for
  that id, a later \<^verbatim>\<open>createLocation\<close> with the same id, whatever its other arguments and
  whatever calls came in between, reverts with "Location already exists" (the spec's
  \<open>DuplicateId\<close>) and leaves storage, and so the stored record, as it was; called right
  after the first, it leaves the record the first call wrote.
\<close>

theorem createLocation_duplicate_id:
  assumes "locId \<noteq> []"
    and "createLocation E sender now s locId encLat encLng latProof lngProof radius descr = Inr s1"
  shows "createLocation E sender' now' (run E s1 cs) locId encLat' encLng' latProof' lngProof'
           radius' descr' = Inl Location_already_exists \<and>
         exec E (run E s1 cs)
           (CreateLocation sender' now' locId encLat' encLng' latProof' lngProof' radius' descr')
           = run E s1 cs \<and>
         locationData (exec E s1
           (CreateLocation sender' now' locId encLat' encLng' latProof' lngProof' radius' descr'))
           locId = locationData s1 locId"
proof -
  have stored: "locationId (locationData s1 locId) \<noteq> []"
    using assms createLocation_Inr_exists by fastforce
  have later: "locationId (locationData (run E s1 cs) locId) \<noteq> []"
    using stored by (simp add: run_exists)
  have fails: "\<And>t. locationId (locationData t locId) \<noteq> [] \<Longrightarrow>
      createLocation E sender' now' t locId encLat' encLng' latProof' lngProof' radius' descr'
        = Inl Location_already_exists"
    by (simp add: createLocation_def)
  show ?thesis
    using fails [OF later] fails [OF stored] by simp
qed

text \<open>Witness: \<^verbatim>\<open>loc1\<close> is registered, then revealed, then registered again by someone
  else.\<close>

theorem createLocation_duplicate_id_witness:
  "createLocation plain_engine 0xA11CE 1700000000 init_storage ''loc1'' (plain_encrypt 2500000)
     (plain_encrypt 12150000) [1] [1] 100 ''anchor'' = Inr storage_created \<and>
   createLocation plain_engine 0xB0B 1700000600
     (run plain_engine storage_created [reveal_loc1]) ''loc1'' (plain_encrypt 7)
     (plain_encrypt 9) [1] [1] 5 ''again'' = Inl Location_already_exists \<and>
   locationData (exec plain_engine storage_created
     (CreateLocation 0xB0B 1700000600 ''loc1'' (plain_encrypt 7) (plain_encrypt 9) [1] [1] 5
        ''again'')) ''loc1'' = locationData storage_created ''loc1''"
proof -
  have ne: "''loc1'' \<noteq> []" by simp
  show ?thesis
    using createLocation_duplicate_id [OF ne create_loc1_succeeds, where sender' = "0xB0B"
        and now' = 1700000600 and cs = "[reveal_loc1]" and encLat' = "plain_encrypt 7"
        and encLng' = "plain_encrypt 9" and latProof' = "[1]" and lngProof' = "[1]"
        and radius' = 5 and descr' = "''again''"] create_loc1_succeeds
    by simp
qed

text \<open>
  C1 as the spec states it, for every id, fails at the empty id: both calls go through,
  and the second overwrites the record of the first.
\<close>

theorem createLocation_duplicate_id_counterexample:
  "\<not> isl (createLocation plain_engine 0xA11CE 1700000000 init_storage [] (plain_encrypt 1)
            (plain_encrypt 2) [1] [1] 100 ''first'') \<and>
   \<not> isl (createLocation plain_engine 0xB0B 1700000600
            (exec plain_engine init_storage
               (CreateLocation 0xA11CE 1700000000 [] (plain_encrypt 1) (plain_encrypt 2)
                  [1] [1] 100 ''first''))
            [] (plain_encrypt 3) (plain_encrypt 4) [1] [1] 7 ''second'') \<and>
   description (locationData (exec plain_engine init_storage
       (CreateLocation 0xA11CE 1700000000 [] (plain_encrypt 1) (plain_encrypt 2)
          [1] [1] 100 ''first'')) []) = ''first'' \<and>
   description (locationData (run plain_engine init_storage
       [CreateLocation 0xA11CE 1700000000 [] (plain_encrypt 1) (plain_encrypt 2)
          [1] [1] 100 ''first'',
        CreateLocation 0xB0B 1700000600 [] (plain_encrypt 3) (plain_encrypt 4)
          [1] [1] 7 ''second'']) []) = ''second''"
  by (simp add: run_def createLocation_def plain_engine_def init_storage_def plain_encrypt_def)

section \<open>Reveal\<close>

text \<open>
  C2. \<^verbatim>\<open>verifyLocation\<close> goes through at most once for a record: after it has, every later
  \<^verbatim>\<open>verifyLocation\<close> on the same id, whatever its arguments and whatever calls came in
  between, reverts with "Location already verified" (the spec's \<open>AlreadyVerified\<close>), and
  \<^verbatim>\<open>decryptedLatitude\<close> and \<^verbatim>\<open>decryptedLongitude\<close> are still what the first call wrote.
\<close>

theorem verifyLocation_at_most_once:
  assumes "verifyLocation E s locId clearLat clearLng latProof lngProof = Inr s1"
  shows "verifyLocation E (run E s1 cs) locId clearLat' clearLng' latProof' lngProof'
           = Inl Location_already_verified \<and>
         decryptedLatitude (locationData (exec E (run E s1 cs)
           (VerifyLocation locId clearLat' clearLng' latProof' lngProof')) locId)
           = decryptedLatitude (locationData s1 locId) \<and>
         decryptedLongitude (locationData (exec E (run E s1 cs)
           (VerifyLocation locId clearLat' clearLng' latProof' lngProof')) locId)
           = decryptedLongitude (locationData s1 locId)"
proof -
  have first: "locationId (locationData s1 locId) \<noteq> []" "isVerified (locationData s1 locId)"
    using assms verifyLocation_Inr_verified by blast+
  have same: "locationData (run E s1 cs) locId = locationData s1 locId"
    using first by (rule run_verified)
  have fails: "verifyLocation E (run E s1 cs) locId clearLat' clearLng' latProof' lngProof'
      = Inl Location_already_verified"
    using first by (simp add: verifyLocation_def same)
  show ?thesis
    by (simp add: fails same)
qed

text \<open>Witness: \<^verbatim>\<open>loc1\<close> is revealed; after two more registrations a second reveal, with the
  coordinates swapped, reverts and the stored coordinates stay.\<close>

theorem verifyLocation_at_most_once_witness:
  "verifyLocation plain_engine storage_created ''loc1'' (abi_encode_uint32 2500000)
     (abi_encode_uint32 12150000) [1] [1] = Inr storage_verified \<and>
   verifyLocation plain_engine (run plain_engine storage_verified [create_loc2, create_loc1])
     ''loc1'' (abi_encode_uint32 12150000) (abi_encode_uint32 2500000) [2] [2]
     = Inl Location_already_verified \<and>
   decryptedLatitude (locationData (exec plain_engine
       (run plain_engine storage_verified [create_loc2, create_loc1])
       (VerifyLocation ''loc1'' (abi_encode_uint32 12150000) (abi_encode_uint32 2500000)
          [2] [2])) ''loc1'') = 2500000 \<and>
   decryptedLongitude (locationData (exec plain_engine
       (run plain_engine storage_verified [create_loc2, create_loc1])
       (VerifyLocation ''loc1'' (abi_encode_uint32 12150000) (abi_encode_uint32 2500000)
          [2] [2])) ''loc1'') = 12150000"
  using verifyLocation_at_most_once [OF reveal_loc1_succeeds,
      where cs = "[create_loc2, create_loc1]"
      and clearLat' = "abi_encode_uint32 12150000" and clearLng' = "abi_encode_uint32 2500000"
      and latProof' = "[2]" and lngProof' = "[2]"] reveal_loc1_succeeds
  by (simp add: verified_loc1 del: exec.simps)

text \<open>
  C3. The flag \<^verbatim>\<open>isVerified\<close> of a record is monotonic: if it is set after some sequence
  of calls on the deployed contract, it is set after every longer sequence, whatever the
  further calls are (registrations, reveals, proximity checks, queries).
\<close>

theorem isVerified_monotonic:
  assumes "isVerified (locationData (run E init_storage cs) k)"
  shows "isVerified (locationData (run E init_storage (cs @ cs')) k)"
proof -
  have "verified_exist (run E init_storage cs)"
    using init_verified_exist by (rule run_verified_exist)
  then have "locationId (locationData (run E init_storage cs) k) \<noteq> []"
    using assms by (simp add: verified_exist_def)
  then have "locationData (run E (run E init_storage cs) cs') k
      = locationData (run E init_storage cs) k"
    using assms by (rule run_verified)
  then show ?thesis
    using assms by (simp add: run_append)
qed

text \<open>Witness: after the reveal of \<^verbatim>\<open>loc1\<close>, one call of every external function.\<close>

theorem isVerified_monotonic_witness:
  "isVerified (locationData (run plain_engine init_storage [create_loc1, reveal_loc1]) ''loc1'') \<and>
   isVerified (locationData (run plain_engine init_storage
     ([create_loc1, reveal_loc1] @
      [create_loc1, create_loc2, reveal_loc1,
       CheckLocationProximity ''loc1'' (plain_encrypt 2500000) (plain_encrypt 12150000) [1] [1],
       GetLocationData ''loc1'', GetAllLocationIds, IsAvailable])) ''loc1'')"
proof -
  have before: "isVerified (locationData (run plain_engine init_storage
      [create_loc1, reveal_loc1]) ''loc1'')"
    using verified_loc1 by (simp add: storage_verified_def)
  show ?thesis
    using isVerified_monotonic [OF before] before by blast
qed

section \<open>Proximity\<close>

text \<open>
  C4. On a record that exists and is not verified, \<^verbatim>\<open>checkLocationProximity\<close> reverts
  with "Location not verified" (the spec's \<open>NotVerified\<close>) whatever the claimant's
  ciphertexts and proofs are and whatever the engine does with them: the flag is tested
  before the engine sees them.
\<close>

theorem checkLocationProximity_not_verified:
  assumes "locationId (locationData s locId) \<noteq> []"
    and "\<not> isVerified (locationData s locId)"
  shows "checkLocationProximity E s locId encryptedUserLatitude encryptedUserLongitude
           latitudeProof longitudeProof = Inl Location_not_verified"
  using assms by (simp add: checkLocationProximity_def)

text \<open>Witness: on \<^verbatim>\<open>loc1\<close> before its reveal, with proofs the engine rejects and with
  proofs it accepts.\<close>

theorem checkLocationProximity_not_verified_witness:
  "locationId (locationData storage_created ''loc1'') \<noteq> [] \<and>
   \<not> isVerified (locationData storage_created ''loc1'') \<and>
   fromExternal plain_engine 0 [] = None \<and>
   checkLocationProximity plain_engine storage_created ''loc1'' 0 0 [] []
     = Inl Location_not_verified \<and>
   checkLocationProximity plain_engine storage_created ''loc1'' (plain_encrypt 2500000)
     (plain_encrypt 12150000) [1] [1] = Inl Location_not_verified"
proof -
  have ex: "locationId (locationData storage_created ''loc1'') \<noteq> []"
    by (simp add: created_loc1)
  have nv: "\<not> isVerified (locationData storage_created ''loc1'')"
    by (simp add: created_loc1)
  have rejected: "fromExternal plain_engine 0 [] = None"
    by (simp add: plain_engine_def)
  show ?thesis
    using checkLocationProximity_not_verified [OF ex nv] ex nv rejected by simp
qed

text \<open>
  C5 (as amended). On a verified record, with claimant ciphertexts the engine accepts and
  an engine whose arithmetic is that of \<^verbatim>\<open>uint32\<close>: if the squared distance between the
  claimant and the centre is below \<open>2 ^ 32\<close> and the radius is below \<open>2 ^ 16\<close>, then
  \<^verbatim>\<open>checkLocationProximity\<close> returns exactly the boolean
  \<open>(userLat - centerLat)\<^sup>2 + (userLng - centerLng)\<^sup>2 \<le> r\<^sup>2\<close> over the integers. The centre is
  the pair of values of the stored ciphertexts, which is what the function subtracts.
\<close>

theorem checkLocationProximity_exact:
  fixes E :: fhe_engine and s :: storage and locId :: string
  defines "centerLat \<equiv> uint (cleartext E (encryptedLatitude (locationData s locId)))"
    and "centerLng \<equiv> uint (cleartext E (encryptedLongitude (locationData s locId)))"
    and "r \<equiv> uint (publicRadius (locationData s locId))"
  assumes "homomorphic E"
    and "locationId (locationData s locId) \<noteq> []"
    and "isVerified (locationData s locId)"
    and "fromExternal E encUserLat latProof = Some userLatitude"
    and "fromExternal E encUserLng lngProof = Some userLongitude"
    and "(uint (cleartext E userLatitude) - centerLat)\<^sup>2 +
         (uint (cleartext E userLongitude) - centerLng)\<^sup>2 < 2 ^ 32"
    and "r < 2 ^ 16"
  shows "checkLocationProximity E s locId encUserLat encUserLng latProof lngProof =
           Inr ((uint (cleartext E userLatitude) - centerLat)\<^sup>2 +
                (uint (cleartext E userLongitude) - centerLng)\<^sup>2 \<le> r\<^sup>2)"
proof -
  let ?r = "publicRadius (locationData s locId)"
  have small: "?r < 2 ^ 16"
    using assms(10) by (simp add: r_def word_less_def)
  have no_panic: "\<not> 2 ^ 256 \<le> unat ?r * unat ?r"
    using small_radius_squared(1) [OF small] by simp
  have radius: "uint (cleartext E (FHE_euint32 E (?r * ?r))) = r\<^sup>2"
    using assms(4) small_radius_squared(2,3) [OF small] by (simp add: homomorphic_def r_def)
  have dist: "uint ((cleartext E userLatitude - cleartext E (encryptedLatitude (locationData s locId))) *
                (cleartext E userLatitude - cleartext E (encryptedLatitude (locationData s locId))) +
                (cleartext E userLongitude - cleartext E (encryptedLongitude (locationData s locId))) *
                (cleartext E userLongitude - cleartext E (encryptedLongitude (locationData s locId))))
      = (uint (cleartext E userLatitude) - centerLat)\<^sup>2 +
        (uint (cleartext E userLongitude) - centerLng)\<^sup>2"
    using assms(9) unfolding centerLat_def centerLng_def by (rule uint_distance_exact)
  show ?thesis
    using checkLocationProximity_value [OF assms(4-8)] no_panic
    by (simp only: word_le_def dist radius if_False)
qed

text \<open>
  Witness: radius 100, the claimant 60 south and 80 east of the centre, at squared distance
  exactly \<open>100\<^sup>2\<close>, is inside; one unit further east is outside.
\<close>

theorem checkLocationProximity_exact_witness:
  "homomorphic plain_engine \<and>
   cleartext plain_engine (encryptedLatitude (locationData storage_verified ''loc1'')) = 2500000 \<and>
   cleartext plain_engine (encryptedLongitude (locationData storage_verified ''loc1'')) = 12150000 \<and>
   publicRadius (locationData storage_verified ''loc1'') = 100 \<and>
   checkLocationProximity plain_engine storage_verified ''loc1'' (plain_encrypt 2499940)
     (plain_encrypt 12150080) [1] [1] = Inr True \<and>
   checkLocationProximity plain_engine storage_verified ''loc1'' (plain_encrypt 2499940)
     (plain_encrypt 12150081) [1] [1] = Inr False"
proof -
  have center: "cleartext plain_engine (encryptedLatitude (locationData storage_verified ''loc1'')) = 2500000"
     "cleartext plain_engine (encryptedLongitude (locationData storage_verified ''loc1'')) = 12150000"
    by (simp_all add: verified_loc1 plain_cleartext)
  have radius: "publicRadius (locationData storage_verified ''loc1'') = 100"
    by (simp add: verified_loc1)
  have small: "uint (publicRadius (locationData storage_verified ''loc1'')) < 2 ^ 16"
    by (simp add: radius)
  have on: "(uint (cleartext plain_engine (plain_encrypt 2499940)) -
        uint (cleartext plain_engine (encryptedLatitude (locationData storage_verified ''loc1''))))\<^sup>2 +
       (uint (cleartext plain_engine (plain_encrypt 12150080)) -
        uint (cleartext plain_engine (encryptedLongitude (locationData storage_verified ''loc1''))))\<^sup>2
       < 2 ^ 32"
    by (simp add: center plain_cleartext)
  have beyond: "(uint (cleartext plain_engine (plain_encrypt 2499940)) -
        uint (cleartext plain_engine (encryptedLatitude (locationData storage_verified ''loc1''))))\<^sup>2 +
       (uint (cleartext plain_engine (plain_encrypt 12150081)) -
        uint (cleartext plain_engine (encryptedLongitude (locationData storage_verified ''loc1''))))\<^sup>2
       < 2 ^ 32"
    by (simp add: center plain_cleartext)
  show ?thesis
    using checkLocationProximity_exact [OF homomorphic_plain verified_loc1_exists
        verified_loc1_flag plain_fromExternal plain_fromExternal on small]
      checkLocationProximity_exact [OF homomorphic_plain verified_loc1_exists
        verified_loc1_flag plain_fromExternal plain_fromExternal beyond small]
      homomorphic_plain
    by (simp add: center radius plain_cleartext)
qed

text \<open>
  C5 as the spec states it, for every claimant, fails: a claimant 65536 units north of the
  centre is classified inside a radius of 100, since \<open>65536\<^sup>2\<close> is 0 in 32 bits.
\<close>

theorem checkLocationProximity_exact_counterexample:
  "isVerified (locationData storage_verified ''loc1'') \<and>
   cleartext plain_engine (encryptedLatitude (locationData storage_verified ''loc1'')) = 2500000 \<and>
   cleartext plain_engine (encryptedLongitude (locationData storage_verified ''loc1'')) = 12150000 \<and>
   publicRadius (locationData storage_verified ''loc1'') = 100 \<and>
   fromExternal plain_engine (plain_encrypt 2565536) [1] = Some (plain_encrypt 2565536) \<and>
   cleartext plain_engine (plain_encrypt 2565536) = 2565536 \<and>
   checkLocationProximity plain_engine storage_verified ''loc1'' (plain_encrypt 2565536)
     (plain_encrypt 12150000) [1] [1] = Inr True \<and>
   \<not> ((2565536 - 2500000)\<^sup>2 + (12150000 - 12150000)\<^sup>2 \<le> (100 :: int)\<^sup>2)"
  by (simp add: checkLocationProximity_def verified_loc1 plain_engine_def ucast_plain_encrypt)

text \<open>
  C6 (as amended). \<^verbatim>\<open>checkLocationProximity\<close> checks one product for overflow, the
  plaintext \<^verbatim>\<open>publicRadius * publicRadius\<close>, at 256 bits: it reverts with an arithmetic
  panic when that product does not fit. The squares of the two differences and their sum
  are computed by the engine in 32 bits, and no overflow of them is reported: on a verified
  record with accepted claimant ciphertexts the call returns the comparison of the integer
  squared distance reduced modulo \<open>2 ^ 32\<close> with the value of the converted radius product.
\<close>

theorem checkLocationProximity_wraps:
  fixes E :: fhe_engine and s :: storage and locId :: string
  defines "centerLat \<equiv> uint (cleartext E (encryptedLatitude (locationData s locId)))"
    and "centerLng \<equiv> uint (cleartext E (encryptedLongitude (locationData s locId)))"
    and "radius \<equiv> publicRadius (locationData s locId)"
  assumes "homomorphic E"
    and "locationId (locationData s locId) \<noteq> []"
    and "isVerified (locationData s locId)"
    and "fromExternal E encUserLat latProof = Some userLatitude"
    and "fromExternal E encUserLng lngProof = Some userLongitude"
  shows "checkLocationProximity E s locId encUserLat encUserLng latProof lngProof =
           (if 2 ^ 256 \<le> unat radius * unat radius then Inl Panic_arithmetic_overflow
            else Inr (((uint (cleartext E userLatitude) - centerLat)\<^sup>2 +
                       (uint (cleartext E userLongitude) - centerLng)\<^sup>2) mod 2 ^ 32
                      \<le> uint (cleartext E (FHE_euint32 E (radius * radius)))))"
  using checkLocationProximity_value [OF assms(4-8)]
  by (simp only: word_le_def uint_distance_wraps centerLat_def centerLng_def radius_def)

text \<open>
  Witness: a claimant 100000 units north of the centre; \<open>100000\<^sup>2\<close> wraps to 1410065408
  and the call returns \<open>False\<close>.
\<close>

theorem checkLocationProximity_wraps_witness:
  "homomorphic plain_engine \<and>
   checkLocationProximity plain_engine storage_verified ''loc1'' (plain_encrypt 2600000)
     (plain_encrypt 12150000) [1] [1] = Inr False \<and>
   ((2600000 - 2500000)\<^sup>2 + (12150000 - 12150000)\<^sup>2) mod 2 ^ 32 = (1410065408 :: int)"
proof -
  have center: "cleartext plain_engine (encryptedLatitude (locationData storage_verified ''loc1'')) = 2500000"
     "cleartext plain_engine (encryptedLongitude (locationData storage_verified ''loc1'')) = 12150000"
    by (simp_all add: verified_loc1 plain_cleartext)
  have radius: "publicRadius (locationData storage_verified ''loc1'') = 100"
    by (simp add: verified_loc1)
  have conv: "cleartext plain_engine (FHE_euint32 plain_engine 10000) = 10000"
    by (simp add: plain_engine_def ucast_plain_encrypt)
  show ?thesis
    using checkLocationProximity_wraps [OF homomorphic_plain verified_loc1_exists
        verified_loc1_flag plain_fromExternal plain_fromExternal,
        of "plain_encrypt 2600000" "plain_encrypt 12150000"]
      homomorphic_plain
    by (simp add: center radius plain_cleartext conv)
qed

text \<open>
  C6 as the spec states it fails: with both squared differences beyond 32 bits the call
  reports no error and returns \<open>True\<close>.
\<close>

theorem checkLocationProximity_overflow_counterexample:
  "isVerified (locationData storage_verified ''loc1'') \<and>
   cleartext plain_engine (encryptedLatitude (locationData storage_verified ''loc1'')) = 2500000 \<and>
   cleartext plain_engine (encryptedLongitude (locationData storage_verified ''loc1'')) = 12150000 \<and>
   (2 :: int) ^ 32 \<le> (2565536 - 2500000)\<^sup>2 \<and>
   (2 :: int) ^ 32 \<le> (12215536 - 12150000)\<^sup>2 \<and>
   checkLocationProximity plain_engine storage_verified ''loc1'' (plain_encrypt 2565536)
     (plain_encrypt 12215536) [1] [1] = Inr True"
  by (simp add: checkLocationProximity_def verified_loc1 plain_engine_def ucast_plain_encrypt)

section \<open>Atomicity of the reveal\<close>

text \<open>
  C7. \<^verbatim>\<open>verifyLocation\<close> is all or nothing. If \<^verbatim>\<open>FHE.checkSignatures\<close> rejects the
  latitude or the longitude, the call reverts; whenever the call reverts, storage after the
  transaction is storage before it; and when it goes through, \<^verbatim>\<open>isVerified\<close> (not set
  before) is set and both decrypted fields hold the decoded values.
\<close>

theorem verifyLocation_atomic:
  fixes E :: fhe_engine and s :: storage and locId :: string
  defines "cts \<equiv> [toBytes32 E (encryptedLatitude (locationData s locId)),
                  toBytes32 E (encryptedLongitude (locationData s locId))]"
  shows "(\<not> checkSignatures E cts clearLat latProof \<or> \<not> checkSignatures E cts clearLng lngProof
            \<longrightarrow> isl (verifyLocation E s locId clearLat clearLng latProof lngProof)) \<and>
         (isl (verifyLocation E s locId clearLat clearLng latProof lngProof)
            \<longrightarrow> exec E s (VerifyLocation locId clearLat clearLng latProof lngProof) = s) \<and>
         (\<forall>s'. verifyLocation E s locId clearLat clearLng latProof lngProof = Inr s' \<longrightarrow>
            exec E s (VerifyLocation locId clearLat clearLng latProof lngProof) = s' \<and>
            \<not> isVerified (locationData s locId) \<and>
            isVerified (locationData s' locId) \<and>
            Some (decryptedLatitude (locationData s' locId)) = abi_decode_uint32 clearLat \<and>
            Some (decryptedLongitude (locationData s' locId)) = abi_decode_uint32 clearLng)"
proof (intro conjI allI impI)
  assume "\<not> checkSignatures E cts clearLat latProof \<or> \<not> checkSignatures E cts clearLng lngProof"
  then show "isl (verifyLocation E s locId clearLat clearLng latProof lngProof)"
    by (auto simp: verifyLocation_def cts_def Let_def)
next
  assume "isl (verifyLocation E s locId clearLat clearLng latProof lngProof)"
  then show "exec E s (VerifyLocation locId clearLat clearLng latProof lngProof) = s"
    by (cases "verifyLocation E s locId clearLat clearLng latProof lngProof") simp_all
next
  fix s'
  assume ok: "verifyLocation E s locId clearLat clearLng latProof lngProof = Inr s'"
  show "exec E s (VerifyLocation locId clearLat clearLng latProof lngProof) = s'"
    by (simp add: ok)
  show "\<not> isVerified (locationData s locId)"
    using ok by (auto simp: verifyLocation_def split: if_splits)
  show "isVerified (locationData s' locId)"
    using ok by (auto simp: verifyLocation_def Let_def split: if_splits option.splits)
  show "Some (decryptedLatitude (locationData s' locId)) = abi_decode_uint32 clearLat"
    using ok by (auto simp: verifyLocation_def Let_def split: if_splits option.splits)
  show "Some (decryptedLongitude (locationData s' locId)) = abi_decode_uint32 clearLng"
    using ok by (auto simp: verifyLocation_def Let_def split: if_splits option.splits)
qed

text \<open>
  Witness: on \<^verbatim>\<open>loc1\<close>, the latitude signature is accepted and the longitude signature
  rejected, and storage is unchanged; with both accepted, all three fields are written.
\<close>

theorem verifyLocation_atomic_witness:
  "checkSignatures plain_engine [plain_encrypt 2500000, plain_encrypt 12150000]
     (abi_encode_uint32 2500000) [1] \<and>
   \<not> checkSignatures plain_engine [plain_encrypt 2500000, plain_encrypt 12150000]
     (abi_encode_uint32 12150000) [] \<and>
   isl (verifyLocation plain_engine storage_created ''loc1'' (abi_encode_uint32 2500000)
     (abi_encode_uint32 12150000) [1] []) \<and>
   exec plain_engine storage_created (VerifyLocation ''loc1'' (abi_encode_uint32 2500000)
     (abi_encode_uint32 12150000) [1] []) = storage_created \<and>
   exec plain_engine storage_created (VerifyLocation ''loc1'' (abi_encode_uint32 2500000)
     (abi_encode_uint32 12150000) [1] [1]) = storage_verified \<and>
   \<not> isVerified (locationData storage_created ''loc1'') \<and>
   isVerified (locationData storage_verified ''loc1'') \<and>
   decryptedLatitude (locationData storage_verified ''loc1'') = 2500000 \<and>
   decryptedLongitude (locationData storage_verified ''loc1'') = 12150000"
proof -
  have good: "checkSignatures plain_engine [plain_encrypt 2500000, plain_encrypt 12150000]
      (abi_encode_uint32 2500000) [1]"
    by (simp add: plain_engine_def decode_lat ucast_plain_encrypt)
  have bad: "\<not> checkSignatures plain_engine [plain_encrypt 2500000, plain_encrypt 12150000]
      (abi_encode_uint32 12150000) []"
    by (simp add: plain_engine_def)
  note rejected = verifyLocation_atomic [of plain_engine storage_created "''loc1''"
      "abi_encode_uint32 2500000" "[1]" "abi_encode_uint32 12150000" "[]",
      unfolded created_loc1_cts]
  note accepted = verifyLocation_atomic [of plain_engine storage_created "''loc1''"
      "abi_encode_uint32 2500000" "[1]" "abi_encode_uint32 12150000" "[1]",
      unfolded created_loc1_cts]
  have failed: "isl (verifyLocation plain_engine storage_created ''loc1''
      (abi_encode_uint32 2500000) (abi_encode_uint32 12150000) [1] [])"
    using rejected bad by blast
  have unchanged: "exec plain_engine storage_created (VerifyLocation ''loc1''
      (abi_encode_uint32 2500000) (abi_encode_uint32 12150000) [1] []) = storage_created"
    using rejected failed by blast
  have written: "exec plain_engine storage_created (VerifyLocation ''loc1''
      (abi_encode_uint32 2500000) (abi_encode_uint32 12150000) [1] [1]) = storage_verified \<and>
      \<not> isVerified (locationData storage_created ''loc1'') \<and>
      isVerified (locationData storage_verified ''loc1'') \<and>
      Some (decryptedLatitude (locationData storage_verified ''loc1''))
        = abi_decode_uint32 (abi_encode_uint32 2500000) \<and>
      Some (decryptedLongitude (locationData storage_verified ''loc1''))
        = abi_decode_uint32 (abi_encode_uint32 12150000)"
    using accepted reveal_loc1_succeeds by blast
  show ?thesis
    using good bad failed unchanged written by (simp add: decode_lat decode_lng)
qed

section \<open>Queries\<close>

text \<open>
  C8 (as amended). If \<^verbatim>\<open>verifyLocation\<close> on an id goes through with decoded values
  \<open>(lat, lng)\<close>, then after every further sequence of calls \<^verbatim>\<open>getLocationData\<close> on that
  id returns the record's metadata with \<^verbatim>\<open>isVerified = true\<close>, and the stored record, which
  the getter of the public mapping \<^verbatim>\<open>locationData\<close> returns, holds exactly \<open>lat\<close> and
  \<open>lng\<close> in its decrypted fields.
\<close>

theorem verifyLocation_round_trip:
  assumes "verifyLocation E s locId clearLat clearLng latProof lngProof = Inr s1"
  shows "getLocationData (run E s1 cs) locId =
           Inr (description (locationData s locId), creator (locationData s locId),
                timestamp (locationData s locId), True, publicRadius (locationData s locId)) \<and>
         isVerified (locationData (run E s1 cs) locId) \<and>
         Some (decryptedLatitude (locationData (run E s1 cs) locId))
           = abi_decode_uint32 clearLat \<and>
         Some (decryptedLongitude (locationData (run E s1 cs) locId))
           = abi_decode_uint32 clearLng"
proof -
  have first: "locationId (locationData s1 locId) \<noteq> []" "isVerified (locationData s1 locId)"
    using assms verifyLocation_Inr_verified by blast+
  have same: "locationData (run E s1 cs) locId = locationData s1 locId"
    using first by (rule run_verified)
  show ?thesis
    using first verifyLocation_Inr_record [OF assms]
    by (simp add: same getLocationData_def Let_def)
qed

text \<open>
  Witness: after the reveal of \<^verbatim>\<open>loc1\<close>, a second registration and reveal of it, another
  registration and a query.
\<close>

theorem verifyLocation_round_trip_witness:
  "verifyLocation plain_engine storage_created ''loc1'' (abi_encode_uint32 2500000)
     (abi_encode_uint32 12150000) [1] [1] = Inr storage_verified \<and>
   getLocationData (run plain_engine storage_verified
       [create_loc1, reveal_loc1, create_loc2, GetLocationData ''loc1'']) ''loc1''
     = Inr (''anchor'', 0xA11CE, 1700000000, True, 100) \<and>
   decryptedLatitude (locationData (run plain_engine storage_verified
       [create_loc1, reveal_loc1, create_loc2, GetLocationData ''loc1'']) ''loc1'') = 2500000 \<and>
   decryptedLongitude (locationData (run plain_engine storage_verified
       [create_loc1, reveal_loc1, create_loc2, GetLocationData ''loc1'']) ''loc1'') = 12150000"
  using verifyLocation_round_trip [OF reveal_loc1_succeeds,
      of "[create_loc1, reveal_loc1, create_loc2, GetLocationData ''loc1'']"]
    reveal_loc1_succeeds
  by (simp add: created_loc1 decode_lat decode_lng)

text \<open>
  C8 as the spec states it fails for \<^verbatim>\<open>getLocationData\<close>: it returns description,
  creator, timestamp, flag and radius, and not the decrypted values. After reveals that
  decoded different coordinates it returns the same tuple.
\<close>

theorem getLocationData_round_trip_counterexample:
  "decryptedLatitude (locationData (run plain_engine init_storage
      [create_loc1, reveal_loc1]) ''loc1'') = 2500000 \<and>
   decryptedLatitude (locationData (run plain_engine init_storage
      [create_loc1_elsewhere, reveal_loc1_elsewhere]) ''loc1'') = 2500001 \<and>
   getLocationData (run plain_engine init_storage [create_loc1, reveal_loc1]) ''loc1''
     = Inr (''anchor'', 0xA11CE, 1700000000, True, 100) \<and>
   getLocationData (run plain_engine init_storage
      [create_loc1_elsewhere, reveal_loc1_elsewhere]) ''loc1''
     = Inr (''anchor'', 0xA11CE, 1700000000, True, 100)"
proof -
  have d1: "abi_decode_uint32 (abi_encode_uint32 2500001) = Some 2500001"
    by (simp add: abi_decode_uint32_def abi_encode_uint32_def be_nat_def)
  have d2: "abi_decode_uint32 (abi_encode_uint32 12150002) = Some 12150002"
    by (simp add: abi_decode_uint32_def abi_encode_uint32_def be_nat_def)
  have elsewhere: "locationData (run plain_engine init_storage
      [create_loc1_elsewhere, reveal_loc1_elsewhere]) ''loc1'' =
     \<lparr> locationId = ''loc1'', encryptedLatitude = plain_encrypt 2500001,
       encryptedLongitude = plain_encrypt 12150002, publicRadius = 100,
       description = ''anchor'', creator = 0xA11CE, timestamp = 1700000000,
       isVerified = True, decryptedLatitude = 2500001, decryptedLongitude = 12150002 \<rparr>"
    by (simp add: create_loc1_elsewhere_def reveal_loc1_elsewhere_def run_def
          createLocation_def verifyLocation_def d1 d2 ucast_plain_encrypt
          plain_engine_def init_storage_def plain_encrypt_def)
  have here: "locationData (run plain_engine init_storage [create_loc1, reveal_loc1]) ''loc1''
      = locationData storage_verified ''loc1''"
    by (simp add: storage_verified_def)
  show ?thesis
    by (simp add: getLocationData_def elsewhere here verified_loc1)
qed

text \<open>
  C9. \<^verbatim>\<open>getAllLocationIds\<close> returns the ids in registration order: after any sequence of
  calls it is the list it was before, followed by the ids of the \<^verbatim>\<open>createLocation\<close> calls
  that went through, in call order. So each such call appends its id at the end and no
  call removes or reorders an entry; on the deployed contract the list is exactly the ids
  registered so far.
\<close>

theorem getAllLocationIds_insertion_order:
  "getAllLocationIds (run E s cs) = getAllLocationIds s @ created_ids E s cs \<and>
   getAllLocationIds (run E init_storage cs) = created_ids E init_storage cs"
proof -
  have grows: "locationIds (run E t cs) = locationIds t @ created_ids E t cs" for t
  proof (induction cs arbitrary: t)
    case Nil
    show ?case by (simp add: run_Nil)
  next
    case (Cons c cs)
    have "locationIds (run E t (c # cs)) = locationIds (exec E t c) @ created_ids E (exec E t c) cs"
      by (simp add: run_Cons Cons.IH)
    also have "\<dots> = locationIds t @ created_ids E t [c] @ created_ids E (exec E t c) cs"
      by (simp add: exec_locationIds)
    also have "\<dots> = locationIds t @ created_ids E t (c # cs)"
      by (simp only: created_ids_Cons [symmetric])
    finally show ?case .
  qed
  show ?thesis
    using grows [of s] grows [of init_storage]
    by (simp add: getAllLocationIds_def init_storage_def)
qed

text \<open>
  Witness: two registrations, a duplicate that reverts, a reveal and a query.
\<close>

theorem getAllLocationIds_insertion_order_witness:
  "getAllLocationIds (run plain_engine init_storage
     [create_loc1, create_loc2, create_loc1, reveal_loc1, GetAllLocationIds])
   = [''loc1'', ''loc2'']"
proof -
  have ids: "created_ids plain_engine init_storage
     [create_loc1, create_loc2, create_loc1, reveal_loc1, GetAllLocationIds]
     = [''loc1'', ''loc2'']"
    by (simp add: create_loc1_def create_loc2_def reveal_loc1_def createLocation_def
          verifyLocation_def decode_lat decode_lng ucast_plain_encrypt
          plain_engine_def init_storage_def plain_encrypt_def)
  show ?thesis
    using getAllLocationIds_insertion_order [of plain_engine init_storage
      "[create_loc1, create_loc2, create_loc1, reveal_loc1, GetAllLocationIds]",
      THEN conjunct2]
    by (simp only: ids)
qed

section \<open>The empty id\<close>

text \<open>
  C10. After any sequence of calls on the deployed contract, the record under the empty id
  counts as absent: \<^verbatim>\<open>createLocation\<close> with the empty id never reverts with "Location
  already exists", and with inputs the engine accepts it goes through, overwrites the
  record stored there and appends one more empty id to \<^verbatim>\<open>locationIds\<close>;
  \<^verbatim>\<open>verifyLocation\<close>, \<^verbatim>\<open>checkLocationProximity\<close> and \<^verbatim>\<open>getLocationData\<close> on the empty
  id always revert with "Location does not exist".
\<close>

theorem empty_id_never_exists:
  fixes E :: fhe_engine and cs :: "call list"
  defines "s \<equiv> run E init_storage cs"
  shows "createLocation E sender now s [] encLat encLng latProof lngProof radius descr
           \<noteq> Inl Location_already_exists \<and>
         (fromExternal E encLat latProof = Some lat \<and> isInitialized E lat \<and>
          fromExternal E encLng lngProof = Some lng \<and> isInitialized E lng \<longrightarrow>
            (\<exists>s'. createLocation E sender now s [] encLat encLng latProof lngProof radius descr
                    = Inr s' \<and>
                  locationData s' [] =
                    \<lparr> locationId = [], encryptedLatitude = lat, encryptedLongitude = lng,
                      publicRadius = radius, description = descr, creator = sender,
                      timestamp = now, isVerified = False, decryptedLatitude = 0,
                      decryptedLongitude = 0 \<rparr> \<and>
                  locationIds s' = locationIds s @ [[]])) \<and>
         verifyLocation E s [] clearLat clearLng latSigs lngSigs = Inl Location_does_not_exist \<and>
         checkLocationProximity E s [] encUserLat encUserLng userLatProof userLngProof
           = Inl Location_does_not_exist \<and>
         getLocationData s [] = Inl Location_does_not_exist"
proof -
  have absent: "locationId (locationData s []) = []"
    unfolding s_def using init_empty_id by (rule run_empty_id)
  show ?thesis
    using absent
    by (auto simp: createLocation_def verifyLocation_def checkLocationProximity_def
          getLocationData_def split: option.splits)
qed

text \<open>
  Witness: a second registration under the empty id replaces the first, the id list holds
  the empty id twice, and the three other functions do not find the record.
\<close>

theorem empty_id_never_exists_witness:
  "locationIds (run plain_engine init_storage [create_unnamed]) = [[]] \<and>
   description (locationData (run plain_engine init_storage [create_unnamed]) []) = ''first'' \<and>
   \<not> isl (createLocation plain_engine 0xB0B 1700000600
      (run plain_engine init_storage [create_unnamed]) [] (plain_encrypt 3) (plain_encrypt 4)
      [1] [1] 7 ''second'') \<and>
   description (locationData (exec plain_engine (run plain_engine init_storage [create_unnamed])
      (CreateLocation 0xB0B 1700000600 [] (plain_encrypt 3) (plain_encrypt 4) [1] [1] 7
         ''second'')) []) = ''second'' \<and>
   locationIds (exec plain_engine (run plain_engine init_storage [create_unnamed])
      (CreateLocation 0xB0B 1700000600 [] (plain_encrypt 3) (plain_encrypt 4) [1] [1] 7
         ''second'')) = [[], []] \<and>
   verifyLocation plain_engine (run plain_engine init_storage [create_unnamed]) []
      (abi_encode_uint32 1) (abi_encode_uint32 2) [1] [1] = Inl Location_does_not_exist \<and>
   checkLocationProximity plain_engine (run plain_engine init_storage [create_unnamed]) []
      (plain_encrypt 1) (plain_encrypt 2) [1] [1] = Inl Location_does_not_exist \<and>
   getLocationData (run plain_engine init_storage [create_unnamed]) []
      = Inl Location_does_not_exist"
proof -
  let ?s = "run plain_engine init_storage [create_unnamed]"
  have before: "locationIds ?s = [[]]" "description (locationData ?s []) = ''first''"
    by (simp_all add: create_unnamed_def run_def createLocation_def plain_engine_def
          init_storage_def plain_encrypt_def)
  have accepted: "fromExternal plain_engine (plain_encrypt 3) [1] = Some (plain_encrypt 3) \<and>
      isInitialized plain_engine (plain_encrypt 3) \<and>
      fromExternal plain_engine (plain_encrypt 4) [1] = Some (plain_encrypt 4) \<and>
      isInitialized plain_engine (plain_encrypt 4)"
    by (simp add: plain_engine_def plain_encrypt_def)
  note th = empty_id_never_exists [of plain_engine "0xB0B" 1700000600 "[create_unnamed]"
      "plain_encrypt 3" "plain_encrypt 4" "[1]" "[1]" 7 "''second''"
      "plain_encrypt 3" "plain_encrypt 4"
      "abi_encode_uint32 1" "abi_encode_uint32 2" "[1]" "[1]"
      "plain_encrypt 1" "plain_encrypt 2" "[1]" "[1]"]
  from th accepted obtain s' where
    s': "createLocation plain_engine 0xB0B 1700000600 ?s [] (plain_encrypt 3) (plain_encrypt 4)
           [1] [1] 7 ''second'' = Inr s'"
      "description (locationData s' []) = ''second''"
      "locationIds s' = locationIds ?s @ [[]]"
    by auto
  show ?thesis
    using th s' before by simp
qed

end
